theory Spec2Isabelle
  imports Complex_Main
begin

section \<open>The displaced problem of MOOSE: data model\<close>

text \<open>
  The development embeds \<^verbatim>\<open>framework/src/problems/DisplacedProblem.C\<close>.
  A \<^verbatim>\<open>DisplacedProblem\<close> owns a displaced mesh, two displaced systems and one
  \<^verbatim>\<open>Assembly\<close> per thread, and it holds references to the reference problem
  (\<^verbatim>\<open>_mproblem\<close>) and to the reference mesh. Almost every member function forwards
  to these collaborators, whose code lives outside the file. The embedding therefore
  keeps two things: the data the member functions read and write, as records, and
  the sequence of calls issued on the collaborators, as a list of events appended
  in program order. Pointers to elements and nodes are modelled by identifiers.
  \<^verbatim>\<open>TIME_SECTION\<close> only starts a performance timer and is left out.
\<close>

type_synonym thread_id = nat
type_synonym elem = nat
type_synonym node = nat
type_synonym side = nat
type_synonym boundary_id = int
type_synonym subdomain_id = nat
type_synonym 'a point = "'a list"

text \<open>The two displaced systems \<^verbatim>\<open>_displaced_nl\<close> and \<^verbatim>\<open>_displaced_aux\<close>.\<close>

datatype sys_id = NL | AUX

text \<open>The two meshes \<^verbatim>\<open>_mesh\<close> (displaced) and \<^verbatim>\<open>_ref_mesh\<close>.\<close>

datatype mesh_id = DisplacedMesh | RefMesh

text \<open>The two bodies handed to \<^verbatim>\<open>Threads::parallel_reduce\<close>.\<close>

datatype visitor = UpdateDisplacedMeshThread | ResetDisplacedMeshThread

text \<open>Calls on a displaced system, with their arguments.\<close>

datatype sys_call =
    SysAssignSolution
  | SysUpdate
  | SysPrepare thread_id
  | SysPrepareNeighbor thread_id
  | SysReinitElem elem thread_id
  | SysReinitElemFace elem side boundary_id thread_id
  | SysReinitNeighborFace elem side boundary_id thread_id
  | SysReinitNeighbor elem thread_id
  | SysReinitNode node thread_id
  | SysReinitNodeFace node boundary_id thread_id
  | SysReinitNodes "node list" thread_id
  | SysReinitNodesNeighbor "node list" thread_id
  | SysReinitScalars thread_id

text \<open>Calls on one thread's \<^verbatim>\<open>Assembly\<close>, with their arguments.\<close>

datatype 'a asm_call =
    AsmReinitElem elem
  | AsmReinitElemSide elem side
  | AsmReinitNode node
  | AsmReinitAtPhysical elem "'a point list"
  | AsmReinitElemAndNeighbor elem side elem side
  | AsmReinitNeighborAtPhysicalSide elem side "'a point list"
  | AsmReinitNeighborAtPhysical elem "'a point list"
  | AsmPrepare
  | AsmPrepareNeighbor
  | AsmPrepareJacobianBlock
  | AsmPrepareResidual

text \<open>
  One event per call on a collaborator: \<open>Sys i c\<close> is the call \<open>c\<close> on displaced
  system \<open>i\<close>, \<open>Asm tid c\<close> the call \<open>c\<close> on \<^verbatim>\<open>_assembly[tid]\<close> (the source indexes
  the vector unchecked), \<open>ParallelReduce v ns\<close> the parallel reduction of visitor
  \<open>v\<close> over the node range \<open>ns\<close>.
\<close>

datatype 'a event =
    Sys sys_id sys_call
  | Asm thread_id "'a asm_call"
  | Allgather mesh_id
  | GatherToZero mesh_id
  | ParallelReduce visitor "node list"
  | GeomSearchUpdate
  | UpdatePointLocator
  | EqReinit
  | MeshChanged mesh_id
  | GeomSearchReinit

text \<open>
  A mesh, as far as the displaced problem uses it: the full node range
  \<^verbatim>\<open>nodes_begin() .. nodes_end()\<close>, the coordinates of each node, and the answers
  of the two distribution predicates \<^verbatim>\<open>is_serial()\<close> and \<^verbatim>\<open>is_serial_on_zero()\<close>.
\<close>

record 'a MooseMesh =
  nodes :: "node list"
  coords :: "node \<Rightarrow> 'a point"
  is_serial :: bool
  is_serial_on_zero :: bool

text \<open>
  A displaced system: the answers of \<^verbatim>\<open>hasVariable\<close> and \<^verbatim>\<open>hasScalarVariable\<close>
  and the solution vector \<^verbatim>\<open>sys().solution\<close>. The type \<open>'v\<close> stands for
  \<^verbatim>\<open>NumericVector<Number>\<close>.
\<close>

record 'v DisplacedSystem =
  sys_hasVariable :: "string \<Rightarrow> bool"
  sys_hasScalarVariable :: "string \<Rightarrow> bool"
  sys_solution :: 'v

text \<open>
  The reference problem \<^verbatim>\<open>_mproblem\<close>, as far as the displaced problem queries it.
  \<open>mp_nodalValue nl aux v n\<close> is the nodal value of variable \<open>v\<close> at node \<open>n\<close> read
  from the solution vectors \<open>nl\<close> and \<open>aux\<close> through the reference problem's
  degree-of-freedom maps. \<^verbatim>\<open>Moose::CoordinateSystemType\<close> is an enumeration declared
  outside the file; its values are modelled by their integer codes.
\<close>

record ('a, 'v) FEProblemBase =
  mp_isTransient :: bool
  mp_getCoordSystem :: "subdomain_id \<Rightarrow> nat"
  mp_converged :: bool
  mp_hasVariable :: "string \<Rightarrow> bool"
  mp_hasJacobian :: bool
  mp_constJacobian :: bool
  mp_nl_currentSolution :: 'v
  mp_aux_currentSolution :: 'v
  mp_nodalValue :: "'v \<Rightarrow> 'v \<Rightarrow> string \<Rightarrow> node \<Rightarrow> 'a"

text \<open>
  The displaced problem. \<open>nl_solution\<close> and \<open>aux_solution\<close> are the pointers
  \<^verbatim>\<open>_nl_solution\<close> and \<^verbatim>\<open>_aux_solution\<close> (\<open>None\<close> is the null pointer);
  \<open>dirac_points\<close> is the map \<^verbatim>\<open>_dirac_kernel_info.getPoints()\<close> from elements to
  a pair of a point list and a multiplicity list; \<open>elem_neighbor_ptr\<close> and
  \<open>elem_which_neighbor_am_i\<close> are \<^verbatim>\<open>Elem::neighbor_ptr\<close> and
  \<^verbatim>\<open>Elem::which_neighbor_am_i\<close> on the displaced mesh; \<open>trace\<close> is the list of
  collaborator calls issued so far.
\<close>

record ('a, 'v) DisplacedProblem =
  mproblem :: "('a, 'v) FEProblemBase"
  mesh :: "'a MooseMesh"
  ref_mesh :: "'a MooseMesh"
  displacements :: "string list"
  displaced_nl :: "'v DisplacedSystem"
  displaced_aux :: "'v DisplacedSystem"
  nl_solution :: "'v option"
  aux_solution :: "'v option"
  dirac_points :: "elem \<rightharpoonup> ('a point list \<times> nat list)"
  elem_neighbor_ptr :: "elem \<Rightarrow> side \<Rightarrow> elem option"
  elem_which_neighbor_am_i :: "elem \<Rightarrow> elem \<Rightarrow> side"
  trace :: "'a event list"

section \<open>Recording calls\<close>

definition emit :: "'a event \<Rightarrow> ('a, 'v) DisplacedProblem \<Rightarrow> ('a, 'v) DisplacedProblem" where
  "emit e s = s\<lparr>trace := trace s @ [e]\<rparr>"

text \<open>\<open>new_events s s'\<close>: the calls issued between state \<open>s\<close> and the later state \<open>s'\<close>.\<close>

definition new_events ::
  "('a, 'v) DisplacedProblem \<Rightarrow> ('a, 'v) DisplacedProblem \<Rightarrow> 'a event list" where
  "new_events s s' = drop (length (trace s)) (trace s')"

section \<open>Solution synchronisation and mesh update\<close>

text \<open>
  \<^verbatim>\<open>(*_displaced_nl.sys().solution) = v\<close>: the vector assignment of libMesh, modelled
  as a copy of the value.
\<close>

definition assign_solution ::
  "sys_id \<Rightarrow> 'v \<Rightarrow> ('a, 'v) DisplacedProblem \<Rightarrow> ('a, 'v) DisplacedProblem" where
  "assign_solution i v s =
     emit (Sys i SysAssignSolution)
       (case i of
          NL \<Rightarrow> s\<lparr>displaced_nl := (displaced_nl s)\<lparr>sys_solution := v\<rparr>\<rparr>
        | AUX \<Rightarrow> s\<lparr>displaced_aux := (displaced_aux s)\<lparr>sys_solution := v\<rparr>\<rparr>)"

definition syncSolutions :: "('a, 'v) DisplacedProblem \<Rightarrow> ('a, 'v) DisplacedProblem" where
  "syncSolutions s =
     (let s1 = assign_solution NL (mp_nl_currentSolution (mproblem s)) s;
          s2 = assign_solution AUX (mp_aux_currentSolution (mproblem s1)) s1;
          s3 = emit (Sys NL SysUpdate) s2;
          s4 = emit (Sys AUX SysUpdate) s3
      in s4)"

definition syncSolutions_with ::
  "'v \<Rightarrow> 'v \<Rightarrow> ('a, 'v) DisplacedProblem \<Rightarrow> ('a, 'v) DisplacedProblem" where
  "syncSolutions_with soln aux_soln s =
     (let s1 = assign_solution NL soln s;
          s2 = assign_solution AUX aux_soln s1;
          s3 = emit (Sys NL SysUpdate) s2;
          s4 = emit (Sys AUX SysUpdate) s3
      in s4)"

text \<open>
  The two collectives of libMesh issued on the reference mesh, by their contract:
  after \<^verbatim>\<open>allgather()\<close> every process holds the whole mesh, so both predicates
  answer true; after \<^verbatim>\<open>gather_to_zero()\<close> process zero holds the whole mesh. Node
  coordinates are not changed.
\<close>

definition allgather_ref :: "('a, 'v) DisplacedProblem \<Rightarrow> ('a, 'v) DisplacedProblem" where
  "allgather_ref s =
     emit (Allgather RefMesh)
       (s\<lparr>ref_mesh := (ref_mesh s)\<lparr>is_serial := True, is_serial_on_zero := True\<rparr>\<rparr>)"

definition gather_to_zero_ref :: "('a, 'v) DisplacedProblem \<Rightarrow> ('a, 'v) DisplacedProblem" where
  "gather_to_zero_ref s =
     emit (GatherToZero RefMesh)
       (s\<lparr>ref_mesh := (ref_mesh s)\<lparr>is_serial_on_zero := True\<rparr>\<rparr>)"

text \<open>
  Modelled from the spec: the visitors \<^verbatim>\<open>UpdateDisplacedMeshThread\<close> and
  \<^verbatim>\<open>ResetDisplacedMeshThread\<close> are included by \<^verbatim>\<open>DisplacedProblem.C\<close> but their
  code is missing. The specification says of the first: for each node, evaluate each
  displacement variable's current nodal value on the reference solution, take the
  values as a coordinate offset vector, and write
  \<open>displaced_coordinate = reference_coordinate + offset\<close> into the displaced mesh's
  node store. \<open>add_offset\<close> adds the offset component by component; a direction
  without a displacement variable has no offset.
\<close>

fun add_offset :: "'a::plus point \<Rightarrow> 'a list \<Rightarrow> 'a point" where
  "add_offset [] ds = []"
| "add_offset (r # rs) [] = r # rs"
| "add_offset (r # rs) (d # ds) = (r + d) # add_offset rs ds"

text \<open>
  Modelled from the spec: the per-node step of \<^verbatim>\<open>UpdateDisplacedMeshThread\<close>, whose
  code is missing. \<open>val v n\<close> is the current nodal value of displacement variable
  \<open>v\<close> at node \<open>n\<close> on the reference solution; the node of the displaced mesh
  receives the reference coordinate plus the offset made of these values.
\<close>

definition displace_node ::
  "(string \<Rightarrow> node \<Rightarrow> 'a::plus) \<Rightarrow> string list \<Rightarrow> 'a MooseMesh \<Rightarrow> node \<Rightarrow>
   'a MooseMesh \<Rightarrow> 'a MooseMesh" where
  "displace_node val disps ref n m =
     m\<lparr>coords := (coords m)(n := add_offset (coords ref n) (map (\<lambda>v. val v n) disps))\<rparr>"

text \<open>
  Modelled from the spec: the inverse visitor \<^verbatim>\<open>ResetDisplacedMeshThread\<close>, whose
  code is missing, writes the reference coordinate directly, discarding the offset.
\<close>

definition undisplace_node :: "'a MooseMesh \<Rightarrow> node \<Rightarrow> 'a MooseMesh \<Rightarrow> 'a MooseMesh" where
  "undisplace_node ref n m = m\<lparr>coords := (coords m)(n := coords ref n)\<rparr>"

text \<open>
  \<^verbatim>\<open>Threads::parallel_reduce(range, body)\<close>: the body visits every node of the
  range; nodes are independent and the join is empty, so the reduction is modelled
  as one sequential pass.
\<close>

definition parallel_reduce ::
  "node list \<Rightarrow> (node \<Rightarrow> 'a MooseMesh \<Rightarrow> 'a MooseMesh) \<Rightarrow> 'a MooseMesh \<Rightarrow> 'a MooseMesh" where
  "parallel_reduce node_range body m = fold body node_range m"

text \<open>
  The common tail of both overloads of \<^verbatim>\<open>updateMesh\<close>: build the visitor, build
  the node range from \<^verbatim>\<open>_mesh.getMesh().nodes_begin()\<close> to \<^verbatim>\<open>nodes_end()\<close>, reduce,
  update the geometric search data, update the point locator. The visitor reads the
  vectors behind \<^verbatim>\<open>_nl_solution\<close> and \<^verbatim>\<open>_aux_solution\<close>.
\<close>

definition displace_and_refresh ::
  "'v \<Rightarrow> 'v \<Rightarrow> ('a::plus, 'v) DisplacedProblem \<Rightarrow> ('a, 'v) DisplacedProblem" where
  "displace_and_refresh nl aux s =
     (let node_range = nodes (mesh s);
          s1 = emit (ParallelReduce UpdateDisplacedMeshThread node_range)
                 (s\<lparr>mesh := parallel_reduce node_range
                      (displace_node (mp_nodalValue (mproblem s) nl aux)
                         (displacements s) (ref_mesh s))
                      (mesh s)\<rparr>);
          s2 = emit GeomSearchUpdate s1;
          s3 = emit UpdatePointLocator s2
      in s3)"

definition updateMesh :: "('a::plus, 'v) DisplacedProblem \<Rightarrow> ('a, 'v) DisplacedProblem" where
  "updateMesh s =
     (let s1 = syncSolutions s;
          nl = mp_nl_currentSolution (mproblem s1);
          aux = mp_aux_currentSolution (mproblem s1);
          s2 = s1\<lparr>nl_solution := Some nl, aux_solution := Some aux\<rparr>;
          s3 = (if is_serial (mesh s2) \<and> \<not> is_serial (ref_mesh s2)
                then allgather_ref s2 else s2);
          s4 = (if is_serial_on_zero (mesh s3) \<and> \<not> is_serial_on_zero (ref_mesh s3)
                then gather_to_zero_ref s3 else s3)
      in displace_and_refresh nl aux s4)"

definition updateMesh_with ::
  "'v \<Rightarrow> 'v \<Rightarrow> ('a::plus, 'v) DisplacedProblem \<Rightarrow> ('a, 'v) DisplacedProblem" where
  "updateMesh_with soln aux_soln s =
     (let s1 = syncSolutions_with soln aux_soln s;
          s2 = s1\<lparr>nl_solution := Some soln, aux_solution := Some aux_soln\<rparr>
      in displace_and_refresh soln aux_soln s2)"

definition undisplaceMesh :: "('a, 'v) DisplacedProblem \<Rightarrow> ('a, 'v) DisplacedProblem" where
  "undisplaceMesh s =
     (let node_range = nodes (mesh s)
      in emit (ParallelReduce ResetDisplacedMeshThread node_range)
           (s\<lparr>mesh := parallel_reduce node_range (undisplace_node (ref_mesh s)) (mesh s)\<rparr>))"

definition meshChanged :: "('a, 'v) DisplacedProblem \<Rightarrow> ('a, 'v) DisplacedProblem" where
  "meshChanged s =
     (let s1 = emit EqReinit s;
          s2 = emit (MeshChanged DisplacedMesh) s1;
          s3 = emit UpdatePointLocator s2;
          s4 = emit GeomSearchReinit s3
      in s4)"

section \<open>Identity and metadata queries\<close>

definition isTransient :: "('a, 'v) DisplacedProblem \<Rightarrow> bool" where
  "isTransient s = mp_isTransient (mproblem s)"

definition getCoordSystem :: "subdomain_id \<Rightarrow> ('a, 'v) DisplacedProblem \<Rightarrow> nat" where
  "getCoordSystem sid s = mp_getCoordSystem (mproblem s) sid"

definition converged :: "('a, 'v) DisplacedProblem \<Rightarrow> bool" where
  "converged s = mp_converged (mproblem s)"

definition hasVariable :: "string \<Rightarrow> ('a, 'v) DisplacedProblem \<Rightarrow> bool" where
  "hasVariable var_name s =
     (if sys_hasVariable (displaced_nl s) var_name then True
      else if sys_hasVariable (displaced_aux s) var_name then True
      else False)"

definition hasScalarVariable :: "string \<Rightarrow> ('a, 'v) DisplacedProblem \<Rightarrow> bool" where
  "hasScalarVariable var_name s =
     (if sys_hasScalarVariable (displaced_nl s) var_name then True
      else if sys_hasScalarVariable (displaced_aux s) var_name then True
      else False)"

section \<open>Variable lookup in the displaced systems\<close>

text \<open>\<^verbatim>\<open>mooseError(msg)\<close> terminates the run with the message; it is the error value.\<close>

datatype moose_error = MooseError string

text \<open>
  What a successful lookup returns: the reference handed out by the displaced
  system \<open>i\<close>, namely \<^verbatim>\<open>getFieldVariable<Real>(tid, name)\<close>,
  \<^verbatim>\<open>getFieldVariable<RealVectorValue>(tid, name)\<close>, \<^verbatim>\<open>getScalarVariable(tid, name)\<close>
  or \<^verbatim>\<open>system()\<close>.
\<close>

datatype lookup =
    FieldVariableReal sys_id thread_id string
  | FieldVariableRealVector sys_id thread_id string
  | ScalarVariable sys_id thread_id string
  | SystemOf sys_id

definition no_variable_msg :: "string \<Rightarrow> string" where
  "no_variable_msg var_name = ''No variable with name '' @ [CHR 0x27] @ var_name @ [CHR 0x27]"

definition getStandardVariable ::
  "thread_id \<Rightarrow> string \<Rightarrow> ('a, 'v) DisplacedProblem \<Rightarrow> moose_error + lookup" where
  "getStandardVariable tid var_name s =
     (if sys_hasVariable (displaced_nl s) var_name
      then Inr (FieldVariableReal NL tid var_name)
      else if \<not> sys_hasVariable (displaced_aux s) var_name
      then Inl (MooseError (no_variable_msg var_name))
      else Inr (FieldVariableReal AUX tid var_name))"

definition getVectorVariable ::
  "thread_id \<Rightarrow> string \<Rightarrow> ('a, 'v) DisplacedProblem \<Rightarrow> moose_error + lookup" where
  "getVectorVariable tid var_name s =
     (if sys_hasVariable (displaced_nl s) var_name
      then Inr (FieldVariableRealVector NL tid var_name)
      else if \<not> sys_hasVariable (displaced_aux s) var_name
      then Inl (MooseError (no_variable_msg var_name))
      else Inr (FieldVariableRealVector AUX tid var_name))"

definition getScalarVariable ::
  "thread_id \<Rightarrow> string \<Rightarrow> ('a, 'v) DisplacedProblem \<Rightarrow> moose_error + lookup" where
  "getScalarVariable tid var_name s =
     (if sys_hasScalarVariable (displaced_nl s) var_name
      then Inr (ScalarVariable NL tid var_name)
      else if sys_hasScalarVariable (displaced_aux s) var_name
      then Inr (ScalarVariable AUX tid var_name)
      else Inl (MooseError (no_variable_msg var_name)))"

definition getSystem :: "string \<Rightarrow> ('a, 'v) DisplacedProblem \<Rightarrow> moose_error + lookup" where
  "getSystem var_name s =
     (if sys_hasVariable (displaced_nl s) var_name then Inr (SystemOf NL)
      else if sys_hasVariable (displaced_aux s) var_name then Inr (SystemOf AUX)
      else Inl (MooseError (''Unable to find a system containing the variable '' @ var_name)))"

section \<open>Preparation and reinitialisation\<close>

definition prepare ::
  "elem \<Rightarrow> thread_id \<Rightarrow> ('a, 'v) DisplacedProblem \<Rightarrow> ('a, 'v) DisplacedProblem" where
  "prepare elem tid s =
     (let s1 = emit (Asm tid (AsmReinitElem elem)) s;
          s2 = emit (Sys NL (SysPrepare tid)) s1;
          s3 = emit (Sys AUX (SysPrepare tid)) s2;
          s4 = (if \<not> mp_hasJacobian (mproblem s3) \<or> \<not> mp_constJacobian (mproblem s3)
                then emit (Asm tid AsmPrepareJacobianBlock) s3 else s3);
          s5 = emit (Asm tid AsmPrepareResidual) s4
      in s5)"

definition prepareAssemblyNeighbor ::
  "thread_id \<Rightarrow> ('a, 'v) DisplacedProblem \<Rightarrow> ('a, 'v) DisplacedProblem" where
  "prepareAssemblyNeighbor tid s = emit (Asm tid AsmPrepareNeighbor) s"

definition reinitElem ::
  "elem \<Rightarrow> thread_id \<Rightarrow> ('a, 'v) DisplacedProblem \<Rightarrow> ('a, 'v) DisplacedProblem" where
  "reinitElem elem tid s =
     (let s1 = emit (Sys NL (SysReinitElem elem tid)) s;
          s2 = emit (Sys AUX (SysReinitElem elem tid)) s1
      in s2)"

definition reinitElemPhys ::
  "elem \<Rightarrow> 'a point list \<Rightarrow> thread_id \<Rightarrow> ('a, 'v) DisplacedProblem \<Rightarrow>
   ('a, 'v) DisplacedProblem" where
  "reinitElemPhys elem phys_points_in_elem tid s =
     (let s1 = emit (Asm tid (AsmReinitAtPhysical elem phys_points_in_elem)) s;
          s2 = emit (Sys NL (SysPrepare tid)) s1;
          s3 = emit (Sys AUX (SysPrepare tid)) s2;
          s4 = emit (Asm tid AsmPrepare) s3
      in reinitElem elem tid s4)"

definition reinitElemFace ::
  "elem \<Rightarrow> side \<Rightarrow> boundary_id \<Rightarrow> thread_id \<Rightarrow> ('a, 'v) DisplacedProblem \<Rightarrow>
   ('a, 'v) DisplacedProblem" where
  "reinitElemFace elem side bnd_id tid s =
     (let s1 = emit (Asm tid (AsmReinitElemSide elem side)) s;
          s2 = emit (Sys NL (SysReinitElemFace elem side bnd_id tid)) s1;
          s3 = emit (Sys AUX (SysReinitElemFace elem side bnd_id tid)) s2
      in s3)"

definition reinitNode ::
  "node \<Rightarrow> thread_id \<Rightarrow> ('a, 'v) DisplacedProblem \<Rightarrow> ('a, 'v) DisplacedProblem" where
  "reinitNode node tid s =
     (let s1 = emit (Asm tid (AsmReinitNode node)) s;
          s2 = emit (Sys NL (SysReinitNode node tid)) s1;
          s3 = emit (Sys AUX (SysReinitNode node tid)) s2
      in s3)"

definition reinitNodeFace ::
  "node \<Rightarrow> boundary_id \<Rightarrow> thread_id \<Rightarrow> ('a, 'v) DisplacedProblem \<Rightarrow>
   ('a, 'v) DisplacedProblem" where
  "reinitNodeFace node bnd_id tid s =
     (let s1 = emit (Asm tid (AsmReinitNode node)) s;
          s2 = emit (Sys NL (SysReinitNodeFace node bnd_id tid)) s1;
          s3 = emit (Sys AUX (SysReinitNodeFace node bnd_id tid)) s2
      in s3)"

definition reinitNodes ::
  "node list \<Rightarrow> thread_id \<Rightarrow> ('a, 'v) DisplacedProblem \<Rightarrow> ('a, 'v) DisplacedProblem" where
  "reinitNodes ns tid s =
     (let s1 = emit (Sys NL (SysReinitNodes ns tid)) s;
          s2 = emit (Sys AUX (SysReinitNodes ns tid)) s1
      in s2)"

definition reinitNodesNeighbor ::
  "node list \<Rightarrow> thread_id \<Rightarrow> ('a, 'v) DisplacedProblem \<Rightarrow> ('a, 'v) DisplacedProblem" where
  "reinitNodesNeighbor ns tid s =
     (let s1 = emit (Sys NL (SysReinitNodesNeighbor ns tid)) s;
          s2 = emit (Sys AUX (SysReinitNodesNeighbor ns tid)) s1
      in s2)"

text \<open>
  \<^verbatim>\<open>reinitNeighbor\<close> dereferences \<^verbatim>\<open>elem->neighbor_ptr(side)\<close> without a check. On a
  side without a neighbour the pointer is null and the source has no defined
  behaviour: the model returns \<open>None\<close> there.
\<close>

definition reinitNeighbor ::
  "elem \<Rightarrow> side \<Rightarrow> thread_id \<Rightarrow> ('a, 'v) DisplacedProblem \<Rightarrow>
   ('a, 'v) DisplacedProblem option" where
  "reinitNeighbor elem side tid s =
     (case elem_neighbor_ptr s elem side of
        None \<Rightarrow> None
      | Some neighbor \<Rightarrow>
          (let neighbor_side = elem_which_neighbor_am_i s neighbor elem;
               s1 = emit (Asm tid (AsmReinitElemAndNeighbor elem side neighbor neighbor_side)) s;
               s2 = emit (Sys NL (SysPrepareNeighbor tid)) s1;
               s3 = emit (Sys AUX (SysPrepareNeighbor tid)) s2;
               s4 = emit (Asm tid AsmPrepareNeighbor) s3;
               bnd_id = 0;
               s5 = emit (Sys NL (SysReinitElemFace elem side bnd_id tid)) s4;
               s6 = emit (Sys AUX (SysReinitElemFace elem side bnd_id tid)) s5;
               s7 = emit (Sys NL (SysReinitNeighborFace neighbor neighbor_side bnd_id tid)) s6;
               s8 = emit (Sys AUX (SysReinitNeighborFace neighbor neighbor_side bnd_id tid)) s7
           in Some s8))"

definition reinitNeighborPhys_side ::
  "elem \<Rightarrow> side \<Rightarrow> 'a point list \<Rightarrow> thread_id \<Rightarrow> ('a, 'v) DisplacedProblem \<Rightarrow>
   ('a, 'v) DisplacedProblem" where
  "reinitNeighborPhys_side neighbor neighbor_side physical_points tid s =
     (let s1 = emit (Asm tid (AsmReinitNeighborAtPhysicalSide neighbor neighbor_side
                               physical_points)) s;
          s2 = emit (Sys NL (SysPrepareNeighbor tid)) s1;
          s3 = emit (Sys AUX (SysPrepareNeighbor tid)) s2;
          s4 = prepareAssemblyNeighbor tid s3;
          s5 = emit (Sys NL (SysReinitNeighborFace neighbor neighbor_side 0 tid)) s4;
          s6 = emit (Sys AUX (SysReinitNeighborFace neighbor neighbor_side 0 tid)) s5
      in s6)"

definition reinitNeighborPhys ::
  "elem \<Rightarrow> 'a point list \<Rightarrow> thread_id \<Rightarrow> ('a, 'v) DisplacedProblem \<Rightarrow>
   ('a, 'v) DisplacedProblem" where
  "reinitNeighborPhys neighbor physical_points tid s =
     (let s1 = emit (Asm tid (AsmReinitNeighborAtPhysical neighbor physical_points)) s;
          s2 = emit (Sys NL (SysPrepareNeighbor tid)) s1;
          s3 = emit (Sys AUX (SysPrepareNeighbor tid)) s2;
          s4 = prepareAssemblyNeighbor tid s3;
          s5 = emit (Sys NL (SysReinitNeighbor neighbor tid)) s4;
          s6 = emit (Sys AUX (SysReinitNeighbor neighbor tid)) s5
      in s6)"

definition reinitScalars ::
  "thread_id \<Rightarrow> ('a, 'v) DisplacedProblem \<Rightarrow> ('a, 'v) DisplacedProblem" where
  "reinitScalars tid s =
     (let s1 = emit (Sys NL (SysReinitScalars tid)) s;
          s2 = emit (Sys AUX (SysReinitScalars tid)) s1
      in s2)"

section \<open>Dirac points\<close>

text \<open>
  \<^verbatim>\<open>_dirac_kernel_info.getPoints()[elem].first\<close>: \<^verbatim>\<open>operator[]\<close> of \<^verbatim>\<open>std::map\<close>
  inserts an entry with two empty vectors when the element has none.
\<close>

definition getPoints_at ::
  "elem \<Rightarrow> ('a, 'v) DisplacedProblem \<Rightarrow> 'a point list \<times> ('a, 'v) DisplacedProblem" where
  "getPoints_at elem s =
     (case dirac_points s elem of
        None \<Rightarrow> ([], s\<lparr>dirac_points := (dirac_points s)(elem \<mapsto> ([], []))\<rparr>)
      | Some entry \<Rightarrow> (fst entry, s))"

text \<open>
  \<^verbatim>\<open>unsigned int n_points = points.size()\<close> narrows the size of the vector to an
  \<^verbatim>\<open>unsigned int\<close>, taken as 32 bits wide: the count is the size modulo \<open>2 ^ 32\<close>.
\<close>

definition reinitDirac ::
  "elem \<Rightarrow> thread_id \<Rightarrow> ('a, 'v) DisplacedProblem \<Rightarrow> bool \<times> ('a, 'v) DisplacedProblem" where
  "reinitDirac elem tid s =
     (let (points, s0) = getPoints_at elem s;
          n_points = length points mod 2 ^ 32;
          s4 = (if n_points \<noteq> 0
                then (let s1 = emit (Asm tid (AsmReinitAtPhysical elem points)) s0;
                          s2 = emit (Sys NL (SysPrepare tid)) s1;
                          s3 = emit (Sys AUX (SysPrepare tid)) s2
                      in reinitElem elem tid s3)
                else s0);
          s5 = emit (Asm tid AsmPrepare) s4
      in (n_points > 0, s5))"

section \<open>Reading a trace\<close>

text \<open>The calls on the displaced systems in a list of events, in order.\<close>

fun sys_calls :: "'a event list \<Rightarrow> (sys_id \<times> sys_call) list" where
  "sys_calls [] = []"
| "sys_calls (Sys i c # es) = (i, c) # sys_calls es"
| "sys_calls (e # es) = sys_calls es"

text \<open>
  A list of system calls is in primary-before-auxiliary order when it consists of
  pairs: a call on the displaced nonlinear system directly followed by the same call
  on the displaced auxiliary system.
\<close>

fun primary_before_auxiliary :: "(sys_id \<times> sys_call) list \<Rightarrow> bool" where
  "primary_before_auxiliary [] = True"
| "primary_before_auxiliary [x] = False"
| "primary_before_auxiliary ((i, c) # (j, d) # rest) =
     (i = NL \<and> j = AUX \<and> c = d \<and> primary_before_auxiliary rest)"

text \<open>The calls on the assemblies in a list of events, in order.\<close>

fun asm_calls :: "'a event list \<Rightarrow> (thread_id \<times> 'a asm_call) list" where
  "asm_calls [] = []"
| "asm_calls (Asm tid c # es) = (tid, c) # asm_calls es"
| "asm_calls (e # es) = asm_calls es"


text \<open>The mesh collectives in a list of events, in order, each with its mesh.\<close>

datatype collective = CAllgather mesh_id | CGatherToZero mesh_id

fun collectives :: "'a event list \<Rightarrow> collective list" where
  "collectives [] = []"
| "collectives (Allgather m # es) = CAllgather m # collectives es"
| "collectives (GatherToZero m # es) = CGatherToZero m # collectives es"
| "collectives (e # es) = collectives es"

text \<open>The points registered for an element in the Dirac-kernel map.\<close>

definition registered_points :: "('a, 'v) DisplacedProblem \<Rightarrow> elem \<Rightarrow> 'a point list" where
  "registered_points s elem = (case dirac_points s elem of None \<Rightarrow> [] | Some entry \<Rightarrow> fst entry)"

section \<open>A one-dimensional example\<close>

text \<open>
  Three nodes at 0, 1 and 2 joined by two elements, one displacement variable
  \<open>disp_x\<close> with nodal values 0, 0.1 and 0.2 in the nonlinear solution, and one Dirac
  point in element 0. The reference mesh is replicated, the displaced mesh is not.
  The displaced auxiliary system holds a variable \<open>gap\<close> that the reference problem
  does not report.
\<close>

definition example_ref_mesh :: "real MooseMesh" where
  "example_ref_mesh =
     \<lparr>nodes = [0, 1, 2], coords = (\<lambda>n. [real n]), is_serial = True, is_serial_on_zero = True\<rparr>"

definition example_mproblem :: "(real, real list) FEProblemBase" where
  "example_mproblem =
     \<lparr>mp_isTransient = True, mp_getCoordSystem = (\<lambda>sid. 0), mp_converged = False,
      mp_hasVariable = (\<lambda>v. v = ''disp_x''), mp_hasJacobian = True, mp_constJacobian = True,
      mp_nl_currentSolution = [0, 1 / 10, 2 / 10], mp_aux_currentSolution = [],
      mp_nodalValue = (\<lambda>nl aux v n. if v = ''disp_x'' \<and> n < length nl then nl ! n else 0)\<rparr>"

definition example_problem :: "(real, real list) DisplacedProblem" where
  "example_problem =
     \<lparr>mproblem = example_mproblem,
      mesh = example_ref_mesh\<lparr>is_serial := False, is_serial_on_zero := False\<rparr>,
      ref_mesh = example_ref_mesh,
      displacements = [''disp_x''],
      displaced_nl = \<lparr>sys_hasVariable = (\<lambda>v. v = ''disp_x''),
                      sys_hasScalarVariable = (\<lambda>v. False), sys_solution = []\<rparr>,
      displaced_aux = \<lparr>sys_hasVariable = (\<lambda>v. v = ''gap''),
                       sys_hasScalarVariable = (\<lambda>v. v = ''lambda''), sys_solution = []\<rparr>,
      nl_solution = None,
      aux_solution = None,
      dirac_points = [0 \<mapsto> ([[1 / 2]], [1])],
      elem_neighbor_ptr = (\<lambda>e sd. if e = 0 \<and> sd = 1 then Some 1
                                  else if e = 1 \<and> sd = 0 then Some 0 else None),
      elem_which_neighbor_am_i = (\<lambda>nb e. if nb = 1 then 0 else 1),
      trace = []\<rparr>"


section \<open>Auxiliary facts\<close>

lemma fold_undisplace_coords:
  "coords (fold (undisplace_node ref) ns m) n = (if n \<in> set ns then coords ref n else coords m n)"
  by (induction ns arbitrary: m) (auto simp: undisplace_node_def)

lemma fold_coords_only:
  assumes "\<And>n m. f n m = m\<lparr>coords := g n m\<rparr>"
  shows "fold f ns m = m\<lparr>coords := coords (fold f ns m)\<rparr>"
proof (induction ns arbitrary: m)
  case Nil
  show ?case by simp
next
  case (Cons a ns)
  have "fold f ns (f a m) = (f a m)\<lparr>coords := coords (fold f ns (f a m))\<rparr>"
    by (rule Cons.IH)
  also have "\<dots> = m\<lparr>coords := coords (fold f ns (f a m))\<rparr>"
    by (subst (2) assms) simp
  finally show ?case by simp
qed

lemma fold_undisplace_frame:
  "fold (undisplace_node ref) ns m = m\<lparr>coords := coords (fold (undisplace_node ref) ns m)\<rparr>"
  by (rule fold_coords_only) (simp add: undisplace_node_def)

lemma fold_displace_coords:
  "coords (fold (displace_node val disps ref) ns m) n =
     (if n \<in> set ns then add_offset (coords ref n) (map (\<lambda>v. val v n) disps) else coords m n)"
  by (induction ns arbitrary: m) (auto simp: displace_node_def)

lemma fold_displace_frame:
  "fold (displace_node val disps ref) ns m =
     m\<lparr>coords := coords (fold (displace_node val disps ref) ns m)\<rparr>"
  by (rule fold_coords_only) (simp add: displace_node_def)

lemma trace_updateMesh:
  "trace (updateMesh s) = trace s @
     [Sys NL SysAssignSolution, Sys AUX SysAssignSolution, Sys NL SysUpdate, Sys AUX SysUpdate] @
     (if is_serial (mesh s) \<and> \<not> is_serial (ref_mesh s) then [Allgather RefMesh] else []) @
     (if \<not> (is_serial (mesh s) \<and> \<not> is_serial (ref_mesh s)) \<and>
         is_serial_on_zero (mesh s) \<and> \<not> is_serial_on_zero (ref_mesh s)
      then [GatherToZero RefMesh] else []) @
     [ParallelReduce UpdateDisplacedMeshThread (nodes (mesh s)), GeomSearchUpdate, UpdatePointLocator]"
  by (simp add: updateMesh_def displace_and_refresh_def syncSolutions_def assign_solution_def
      allgather_ref_def gather_to_zero_ref_def emit_def Let_def)

lemma trace_updateMesh_with:
  "trace (updateMesh_with soln aux_soln s) = trace s @
     [Sys NL SysAssignSolution, Sys AUX SysAssignSolution, Sys NL SysUpdate, Sys AUX SysUpdate,
      ParallelReduce UpdateDisplacedMeshThread (nodes (mesh s)), GeomSearchUpdate, UpdatePointLocator]"
  by (simp add: updateMesh_with_def displace_and_refresh_def syncSolutions_with_def assign_solution_def
      emit_def Let_def)

lemma updateMesh_ref_coords: "coords (ref_mesh (updateMesh s)) = coords (ref_mesh s)"
  by (simp add: updateMesh_def displace_and_refresh_def syncSolutions_def assign_solution_def
      allgather_ref_def gather_to_zero_ref_def emit_def Let_def)

lemma updateMesh_mesh:
  "mesh (updateMesh s) =
     fold (displace_node
             (mp_nodalValue (mproblem s) (mp_nl_currentSolution (mproblem s))
                (mp_aux_currentSolution (mproblem s)))
             (displacements s)
             (ref_mesh (updateMesh s)))
       (nodes (mesh s)) (mesh s)"
  by (simp add: updateMesh_def displace_and_refresh_def syncSolutions_def assign_solution_def
      allgather_ref_def gather_to_zero_ref_def emit_def parallel_reduce_def Let_def)

lemma updateMesh_mesh_frame:
  "mesh (updateMesh s) = (mesh s)\<lparr>coords := coords (mesh (updateMesh s))\<rparr>"
  by (subst (1 2) updateMesh_mesh) (rule fold_displace_frame)

lemma updateMesh_mesh_nodes: "nodes (mesh (updateMesh s)) = nodes (mesh s)"
  by (subst updateMesh_mesh_frame) simp

lemma updateMesh_coords:
  "coords (mesh (updateMesh s)) n =
     (if n \<in> set (nodes (mesh s))
      then add_offset (coords (ref_mesh s) n)
             (map (\<lambda>v. mp_nodalValue (mproblem s) (mp_nl_currentSolution (mproblem s))
                          (mp_aux_currentSolution (mproblem s)) v n) (displacements s))
      else coords (mesh s) n)"
  by (subst updateMesh_mesh) (simp add: fold_displace_coords updateMesh_ref_coords)

lemma updateMesh_with_mesh:
  "mesh (updateMesh_with soln aux_soln s) =
     fold (displace_node (mp_nodalValue (mproblem s) soln aux_soln) (displacements s) (ref_mesh s))
       (nodes (mesh s)) (mesh s)"
  by (simp add: updateMesh_with_def displace_and_refresh_def syncSolutions_with_def
      assign_solution_def emit_def parallel_reduce_def Let_def)

lemma updateMesh_with_ref_mesh: "ref_mesh (updateMesh_with soln aux_soln s) = ref_mesh s"
  by (simp add: updateMesh_with_def displace_and_refresh_def syncSolutions_with_def
      assign_solution_def emit_def Let_def)

lemma undisplaceMesh_coords:
  "coords (mesh (undisplaceMesh s)) n =
     (if n \<in> set (nodes (mesh s)) then coords (ref_mesh s) n else coords (mesh s) n)"
  by (simp add: undisplaceMesh_def emit_def parallel_reduce_def Let_def fold_undisplace_coords)

lemma undisplace_after_updateMesh:
  "k \<in> set (nodes (mesh t)) \<Longrightarrow>
     coords (mesh (undisplaceMesh (updateMesh t))) k = coords (ref_mesh t) k"
  by (simp add: undisplaceMesh_coords updateMesh_ref_coords updateMesh_mesh_nodes)

lemma updateMesh_with_no_collectives:
  "collectives (new_events s (updateMesh_with soln aux_soln s)) = []"
  by (simp add: new_events_def trace_updateMesh_with)

section \<open>The claims\<close>

text \<open>
  Claim C1, as amended. The repair in \<^verbatim>\<open>updateMesh()\<close> acts on the reference mesh,
  not on the displaced mesh: \<^verbatim>\<open>updateMesh()\<close> gathers the reference mesh onto every
  process if and only if the displaced mesh is fully replicated while the reference
  mesh is not; when that repair did not fire, it gathers the reference mesh to
  process zero if and only if the displaced mesh is complete on process zero while
  the reference mesh is not; it issues no other mesh collective. Neither overload of
  \<^verbatim>\<open>updateMesh\<close> issues a collective on the displaced mesh.
\<close>

theorem updateMesh_collectives:
  "collectives (new_events s (updateMesh s)) =
     (if is_serial (mesh s) \<and> \<not> is_serial (ref_mesh s) then [CAllgather RefMesh] else []) @
     (if \<not> (is_serial (mesh s) \<and> \<not> is_serial (ref_mesh s)) \<and>
         is_serial_on_zero (mesh s) \<and> \<not> is_serial_on_zero (ref_mesh s)
      then [CGatherToZero RefMesh] else [])
   \<and> CAllgather DisplacedMesh \<notin> set (collectives (new_events s (updateMesh_with soln aux_soln s)))
   \<and> CGatherToZero DisplacedMesh \<notin> set (collectives (new_events s (updateMesh_with soln aux_soln s)))"
  by (simp add: new_events_def trace_updateMesh trace_updateMesh_with)

text \<open>
  Claim C1 as first stated fails on the example: the reference mesh is fully
  replicated and the displaced mesh is not, yet \<^verbatim>\<open>updateMesh()\<close> issues no mesh
  collective and the displaced mesh stays unreplicated.
\<close>

theorem C1_counterexample:
  "is_serial (ref_mesh example_problem) \<and> \<not> is_serial (mesh example_problem) \<and>
   collectives (new_events example_problem (updateMesh example_problem)) = [] \<and>
   \<not> is_serial (mesh (updateMesh example_problem))"
proof -
  have "is_serial (mesh (updateMesh example_problem)) = is_serial (mesh example_problem)"
    by (subst updateMesh_mesh_frame) simp
  then show ?thesis
    by (simp add: new_events_def trace_updateMesh example_problem_def example_ref_mesh_def)
qed

text \<open>
  Claim C1, an instance: with a replicated displaced mesh and a distributed reference
  mesh, the one collective of \<^verbatim>\<open>updateMesh()\<close> is the all-gather of the reference
  mesh.
\<close>

theorem updateMesh_collectives_witness:
  "collectives (new_events
       (example_problem\<lparr>mesh := example_ref_mesh, ref_mesh := example_ref_mesh\<lparr>is_serial := False\<rparr>\<rparr>)
       (updateMesh
          (example_problem\<lparr>mesh := example_ref_mesh, ref_mesh := example_ref_mesh\<lparr>is_serial := False\<rparr>\<rparr>)))
     = [CAllgather RefMesh]"
  using updateMesh_collectives
     [of "example_problem\<lparr>mesh := example_ref_mesh, ref_mesh := example_ref_mesh\<lparr>is_serial := False\<rparr>\<rparr>"]
  by (simp add: example_ref_mesh_def)

text \<open>
  Claim C2, as amended. \<^verbatim>\<open>hasVariable(v)\<close> answers from displaced storage: it is true
  if and only if the displaced nonlinear system or the displaced auxiliary system
  has \<open>v\<close>. \<^verbatim>\<open>isTransient()\<close>, \<^verbatim>\<open>getCoordSystem(sid)\<close> and \<^verbatim>\<open>converged()\<close> return
  exactly what the same query on the reference problem returns.
\<close>

theorem identity_queries:
  "hasVariable v s = (sys_hasVariable (displaced_nl s) v \<or> sys_hasVariable (displaced_aux s) v) \<and>
   isTransient s = mp_isTransient (mproblem s) \<and>
   getCoordSystem sid s = mp_getCoordSystem (mproblem s) sid \<and>
   converged s = mp_converged (mproblem s)"
  by (simp add: hasVariable_def isTransient_def getCoordSystem_def converged_def)

text \<open>
  Claim C2 as first stated fails on the example: the displaced auxiliary system holds
  \<open>gap\<close>, the reference problem does not report it, and \<^verbatim>\<open>hasVariable\<close> of the
  displaced problem differs from the reference problem's answer.
\<close>

theorem C2_counterexample:
  "hasVariable ''gap'' example_problem \<noteq> mp_hasVariable (mproblem example_problem) ''gap''"
  by (simp add: hasVariable_def example_problem_def example_mproblem_def)

text \<open>
  Claim C3. \<^verbatim>\<open>getStandardVariable\<close>, \<^verbatim>\<open>getScalarVariable\<close> and \<^verbatim>\<open>getSystem\<close>
  resolve a name against the displaced nonlinear system first and the displaced
  auxiliary system second, and end in the fatal error if and only if neither holds
  the name. Holding is what the function itself asks of a system: \<^verbatim>\<open>hasVariable\<close>
  for \<^verbatim>\<open>getStandardVariable\<close> and \<^verbatim>\<open>getSystem\<close>, \<^verbatim>\<open>hasScalarVariable\<close> for
  \<^verbatim>\<open>getScalarVariable\<close>.
\<close>

theorem variable_lookup:
  "(isl (getStandardVariable tid v s) \<longleftrightarrow>
      \<not> sys_hasVariable (displaced_nl s) v \<and> \<not> sys_hasVariable (displaced_aux s) v) \<and>
   (sys_hasVariable (displaced_nl s) v \<longrightarrow>
      getStandardVariable tid v s = Inr (FieldVariableReal NL tid v)) \<and>
   (\<not> sys_hasVariable (displaced_nl s) v \<and> sys_hasVariable (displaced_aux s) v \<longrightarrow>
      getStandardVariable tid v s = Inr (FieldVariableReal AUX tid v)) \<and>
   (isl (getScalarVariable tid v s) \<longleftrightarrow>
      \<not> sys_hasScalarVariable (displaced_nl s) v \<and> \<not> sys_hasScalarVariable (displaced_aux s) v) \<and>
   (sys_hasScalarVariable (displaced_nl s) v \<longrightarrow>
      getScalarVariable tid v s = Inr (ScalarVariable NL tid v)) \<and>
   (\<not> sys_hasScalarVariable (displaced_nl s) v \<and> sys_hasScalarVariable (displaced_aux s) v \<longrightarrow>
      getScalarVariable tid v s = Inr (ScalarVariable AUX tid v)) \<and>
   (isl (getSystem v s) \<longleftrightarrow>
      \<not> sys_hasVariable (displaced_nl s) v \<and> \<not> sys_hasVariable (displaced_aux s) v) \<and>
   (sys_hasVariable (displaced_nl s) v \<longrightarrow> getSystem v s = Inr (SystemOf NL)) \<and>
   (\<not> sys_hasVariable (displaced_nl s) v \<and> sys_hasVariable (displaced_aux s) v \<longrightarrow>
      getSystem v s = Inr (SystemOf AUX))"
  by (simp add: getStandardVariable_def getScalarVariable_def getSystem_def)

text \<open>
  Claim C3, an instance: \<open>gap\<close> is absent from the displaced nonlinear system and
  present in the auxiliary one, and both lookups resolve to the auxiliary system.
\<close>

theorem variable_lookup_witness:
  "\<not> sys_hasVariable (displaced_nl example_problem) ''gap'' \<and>
   sys_hasVariable (displaced_aux example_problem) ''gap'' \<and>
   getStandardVariable 0 ''gap'' example_problem = Inr (FieldVariableReal AUX 0 ''gap'') \<and>
   getSystem ''gap'' example_problem = Inr (SystemOf AUX)"
  using variable_lookup [of 0 "''gap''" example_problem]
  by (simp add: example_problem_def)

text \<open>
  Claim C4. Both overloads of \<^verbatim>\<open>updateMesh\<close> reduce the displacement visitor over
  the full node range of the displaced mesh, then update the geometric search data,
  then update the point locator, and these are the last three calls they issue.
  Every node of the displaced mesh then carries its reference coordinate plus the
  displacement offset.
\<close>

theorem updateMesh_order:
  "new_events s (updateMesh s) =
     [Sys NL SysAssignSolution, Sys AUX SysAssignSolution, Sys NL SysUpdate, Sys AUX SysUpdate] @
     (if is_serial (mesh s) \<and> \<not> is_serial (ref_mesh s) then [Allgather RefMesh] else []) @
     (if \<not> (is_serial (mesh s) \<and> \<not> is_serial (ref_mesh s)) \<and>
         is_serial_on_zero (mesh s) \<and> \<not> is_serial_on_zero (ref_mesh s)
      then [GatherToZero RefMesh] else []) @
     [ParallelReduce UpdateDisplacedMeshThread (nodes (mesh s)), GeomSearchUpdate,
      UpdatePointLocator] \<and>
   new_events s (updateMesh_with soln aux_soln s) =
     [Sys NL SysAssignSolution, Sys AUX SysAssignSolution, Sys NL SysUpdate, Sys AUX SysUpdate,
      ParallelReduce UpdateDisplacedMeshThread (nodes (mesh s)), GeomSearchUpdate,
      UpdatePointLocator] \<and>
   (\<forall>n \<in> set (nodes (mesh s)).
      coords (mesh (updateMesh s)) n =
        add_offset (coords (ref_mesh s) n)
          (map (\<lambda>v. mp_nodalValue (mproblem s) (mp_nl_currentSolution (mproblem s))
                       (mp_aux_currentSolution (mproblem s)) v n) (displacements s)) \<and>
      coords (mesh (updateMesh_with soln aux_soln s)) n =
        add_offset (coords (ref_mesh s) n)
          (map (\<lambda>v. mp_nodalValue (mproblem s) soln aux_soln v n) (displacements s)))"
  by (simp add: new_events_def trace_updateMesh trace_updateMesh_with updateMesh_coords
      updateMesh_with_mesh fold_displace_coords)

text \<open>
  Claim C4, an instance: node 2 of the example is displaced by both overloads.
\<close>

theorem updateMesh_order_witness:
  "2 \<in> set (nodes (mesh example_problem)) \<and>
   coords (mesh (updateMesh example_problem)) 2 = [22 / 10] \<and>
   coords (mesh (updateMesh_with [0, 3, 5] [] example_problem)) 2 = [7]"
  using updateMesh_order [of example_problem "[0, 3, 5]" "[]"]
  by (simp add: example_problem_def example_mproblem_def example_ref_mesh_def)

text \<open>
  Claim C5. Every reinitialisation forwarding operation calls the displaced
  nonlinear system and the displaced auxiliary system in pairs, the nonlinear system
  first and the auxiliary system directly after it with the same call; each
  operation issues at least one such pair. \<^verbatim>\<open>reinitNeighbor\<close> does so on every side
  that has a neighbour.
\<close>

theorem reinit_primary_before_auxiliary:
  "primary_before_auxiliary (sys_calls (new_events s (reinitElem e tid s))) \<and>
   sys_calls (new_events s (reinitElem e tid s)) \<noteq> [] \<and>
   primary_before_auxiliary (sys_calls (new_events s (reinitElemPhys e pts tid s))) \<and>
   sys_calls (new_events s (reinitElemPhys e pts tid s)) \<noteq> [] \<and>
   primary_before_auxiliary (sys_calls (new_events s (reinitElemFace e sd bnd tid s))) \<and>
   sys_calls (new_events s (reinitElemFace e sd bnd tid s)) \<noteq> [] \<and>
   primary_before_auxiliary (sys_calls (new_events s (reinitNode n tid s))) \<and>
   sys_calls (new_events s (reinitNode n tid s)) \<noteq> [] \<and>
   primary_before_auxiliary (sys_calls (new_events s (reinitNodeFace n bnd tid s))) \<and>
   sys_calls (new_events s (reinitNodeFace n bnd tid s)) \<noteq> [] \<and>
   primary_before_auxiliary (sys_calls (new_events s (reinitNodes ns tid s))) \<and>
   sys_calls (new_events s (reinitNodes ns tid s)) \<noteq> [] \<and>
   primary_before_auxiliary (sys_calls (new_events s (reinitNodesNeighbor ns tid s))) \<and>
   sys_calls (new_events s (reinitNodesNeighbor ns tid s)) \<noteq> [] \<and>
   primary_before_auxiliary (sys_calls (new_events s (reinitNeighborPhys_side e sd pts tid s))) \<and>
   sys_calls (new_events s (reinitNeighborPhys_side e sd pts tid s)) \<noteq> [] \<and>
   primary_before_auxiliary (sys_calls (new_events s (reinitNeighborPhys e pts tid s))) \<and>
   sys_calls (new_events s (reinitNeighborPhys e pts tid s)) \<noteq> [] \<and>
   primary_before_auxiliary (sys_calls (new_events s (reinitScalars tid s))) \<and>
   sys_calls (new_events s (reinitScalars tid s)) \<noteq> [] \<and>
   (\<forall>nb. elem_neighbor_ptr s e sd = Some nb \<longrightarrow>
      (\<exists>s'. reinitNeighbor e sd tid s = Some s' \<and>
            primary_before_auxiliary (sys_calls (new_events s s')) \<and>
            sys_calls (new_events s s') \<noteq> []))"
  by (simp add: new_events_def emit_def Let_def reinitElem_def reinitElemPhys_def
      reinitElemFace_def reinitNode_def reinitNodeFace_def reinitNodes_def
      reinitNodesNeighbor_def reinitNeighborPhys_side_def reinitNeighborPhys_def
      reinitScalars_def reinitNeighbor_def prepareAssemblyNeighbor_def)

text \<open>
  Claim C5, an instance: side 1 of element 0 of the example has the neighbour 1, and
  \<^verbatim>\<open>reinitNeighbor\<close> returns with its system calls in order.
\<close>

theorem reinit_primary_before_auxiliary_witness:
  "elem_neighbor_ptr example_problem 0 1 = Some 1 \<and>
   (\<exists>s'. reinitNeighbor 0 1 0 example_problem = Some s' \<and>
      primary_before_auxiliary (sys_calls (new_events example_problem s')))"
proof -
  have nb: "elem_neighbor_ptr example_problem 0 1 = Some 1"
    by (simp add: example_problem_def)
  with reinit_primary_before_auxiliary [where s = example_problem and e = 0 and sd = 1 and tid = 0]
  show ?thesis by blast
qed




text \<open>
  Claim C7. For every node and every assignment of displacement values, the
  undisplace visitor after the displace visitor leaves the node at its reference
  coordinate, and so does \<^verbatim>\<open>undisplaceMesh()\<close> after either overload of
  \<^verbatim>\<open>updateMesh\<close> on every node of the displaced mesh. The coordinate type is any
  type with an addition: the result does not depend on the arithmetic, since the
  reference coordinate is written back and nothing is subtracted. On the
  one-dimensional example with nodes at 0, 1, 2 and displacement values 0, 0.1, 0.2
  (in exact real arithmetic) the displaced coordinates are 0, 1.1, 2.2 and
  \<^verbatim>\<open>undisplaceMesh()\<close> restores 0, 1, 2.
\<close>

theorem displacement_round_trip:
  "coords (undisplace_node ref n (displace_node val disps ref n m)) n = coords ref n \<and>
   (n \<in> set (nodes (mesh s)) \<longrightarrow>
      coords (mesh (undisplaceMesh (updateMesh s))) n = coords (ref_mesh s) n \<and>
      coords (mesh (undisplaceMesh (updateMesh_with soln aux_soln s))) n = coords (ref_mesh s) n) \<and>
   map (coords (ref_mesh example_problem)) [0, 1, 2] = [[0], [1], [2]] \<and>
   map (coords (mesh (updateMesh example_problem))) [0, 1, 2] = [[0], [11 / 10], [22 / 10]] \<and>
   map (coords (mesh (undisplaceMesh (updateMesh example_problem)))) [0, 1, 2] = [[0], [1], [2]]"
proof -
  have visitor: "coords (undisplace_node ref n (displace_node val disps ref n m)) n = coords ref n"
    by (simp add: undisplace_node_def)
  have general_with:
    "coords (mesh (undisplaceMesh (updateMesh_with soln aux_soln s))) n = coords (ref_mesh s) n"
    if "n \<in> set (nodes (mesh s))"
  proof -
    have "nodes (mesh (updateMesh_with soln aux_soln s)) = nodes (mesh s)"
      by (subst updateMesh_with_mesh, subst fold_displace_frame) simp
    with that show ?thesis
      by (simp add: undisplaceMesh_coords updateMesh_with_ref_mesh)
  qed
  have ref: "map (coords (ref_mesh example_problem)) [0, 1, 2] = [[0], [1], [2]]"
    by (simp add: example_problem_def example_ref_mesh_def)
  have nodes: "nodes (mesh example_problem) = [0, 1, 2]"
    by (simp add: example_problem_def example_ref_mesh_def)
  have displaced:
    "map (coords (mesh (updateMesh example_problem))) [0, 1, 2] = [[0], [11 / 10], [22 / 10]]"
    by (simp add: updateMesh_coords nodes)
      (simp add: example_problem_def example_mproblem_def example_ref_mesh_def)
  have restored:
    "map (coords (mesh (undisplaceMesh (updateMesh example_problem)))) [0, 1, 2] = [[0], [1], [2]]"
    using undisplace_after_updateMesh [of 0 example_problem]
      undisplace_after_updateMesh [of 1 example_problem]
      undisplace_after_updateMesh [of 2 example_problem] nodes ref
    by simp
  from visitor undisplace_after_updateMesh [of n s] general_with ref displaced restored show ?thesis
    by blast
qed

text \<open>
  Claim C7, an instance: node 1 of the example returns to coordinate 1 after either
  overload.
\<close>

theorem displacement_round_trip_witness:
  "1 \<in> set (nodes (mesh example_problem)) \<and>
   coords (mesh (undisplaceMesh (updateMesh example_problem))) 1 = [1::real] \<and>
   coords (mesh (undisplaceMesh (updateMesh_with [0, 3, 5] [] example_problem))) 1 = [1]"
proof -
  have n: "1 \<in> set (nodes (mesh example_problem))"
    by (simp add: example_problem_def example_ref_mesh_def)
  have r: "coords (ref_mesh example_problem) 1 = [1]"
    by (simp add: example_problem_def example_ref_mesh_def)
  from displacement_round_trip [where s = example_problem and n = 1 and soln = "[0, 3, 5]"
      and aux_soln = "[]" and ref = example_ref_mesh and m = example_ref_mesh
      and val = "\<lambda>v k. 0" and disps = "[]"] n r
  show ?thesis by simp
qed

text \<open>
  Claim C8. \<^verbatim>\<open>prepare(elem, tid)\<close> leaves out \<^verbatim>\<open>prepareJacobianBlock\<close> if and only if
  the reference problem has a Jacobian and declares it constant;
  \<^verbatim>\<open>prepareResidual\<close> is called in every case.
\<close>

theorem prepare_jacobian_block:
  "(Asm tid AsmPrepareJacobianBlock \<notin> set (new_events s (prepare e tid s))) =
     (mp_hasJacobian (mproblem s) \<and> mp_constJacobian (mproblem s)) \<and>
   Asm tid AsmPrepareResidual \<in> set (new_events s (prepare e tid s))"
  by (auto simp add: prepare_def new_events_def emit_def Let_def)

text \<open>
  Claim C8, two instances: the example has a constant Jacobian, so the block
  preparation is left out; without the constant flag it is called.
\<close>

theorem prepare_jacobian_block_witness:
  "mp_hasJacobian (mproblem example_problem) \<and> mp_constJacobian (mproblem example_problem) \<and>
   Asm 0 AsmPrepareJacobianBlock \<notin> set (new_events example_problem (prepare 5 0 example_problem)) \<and>
   Asm 0 AsmPrepareResidual \<in> set (new_events example_problem (prepare 5 0 example_problem)) \<and>
   Asm 0 AsmPrepareJacobianBlock \<in>
     set (new_events (example_problem\<lparr>mproblem := example_mproblem\<lparr>mp_constJacobian := False\<rparr>\<rparr>)
            (prepare 5 0 (example_problem\<lparr>mproblem := example_mproblem\<lparr>mp_constJacobian := False\<rparr>\<rparr>)))"
  using prepare_jacobian_block [of 0 example_problem 5]
    prepare_jacobian_block
      [of 0 "example_problem\<lparr>mproblem := example_mproblem\<lparr>mp_constJacobian := False\<rparr>\<rparr>" 5]
  by (simp add: example_problem_def example_mproblem_def)

text \<open>
  Claim C9. On an element without registered Dirac points \<^verbatim>\<open>reinitDirac\<close> returns
  false, and it has called \<^verbatim>\<open>prepare()\<close> on the thread's assembly: that is the one
  call it issues.
\<close>

theorem reinitDirac_prepares:
  "registered_points s e = [] \<Longrightarrow>
     fst (reinitDirac e tid s) = False \<and>
     new_events s (snd (reinitDirac e tid s)) = [Asm tid AsmPrepare]"
  by (auto simp add: reinitDirac_def getPoints_at_def registered_points_def new_events_def
      emit_def Let_def split: option.splits)

text \<open>
  Claim C9, an instance: element 1 of the example has no Dirac point.
\<close>

theorem reinitDirac_prepares_witness:
  "registered_points example_problem 1 = [] \<and>
   fst (reinitDirac 1 0 example_problem) = False \<and>
   new_events example_problem (snd (reinitDirac 1 0 example_problem)) = [Asm 0 AsmPrepare]"
proof -
  have p1: "registered_points example_problem 1 = []"
    by (simp add: registered_points_def example_problem_def)
  from reinitDirac_prepares [OF p1, of 0] p1 show ?thesis by simp
qed

text \<open>
  Claim C10. \<^verbatim>\<open>undisplaceMesh()\<close> issues one call, the parallel reduction of the
  reset visitor over the full node range of the displaced mesh: no update of the
  geometric search data, no update of the point locator, no reinitialisation of the
  equation systems, no assignment of a solution vector. Apart from the record of
  that call, the state differs from the state before in the node coordinates of the
  displaced mesh only.
\<close>

theorem undisplaceMesh_frame:
  "new_events s (undisplaceMesh s) = [ParallelReduce ResetDisplacedMeshThread (nodes (mesh s))] \<and>
   undisplaceMesh s =
     s\<lparr>mesh := (mesh s)\<lparr>coords := coords (mesh (undisplaceMesh s))\<rparr>,
       trace := trace s @ [ParallelReduce ResetDisplacedMeshThread (nodes (mesh s))]\<rparr>"
proof -
  have m: "mesh (undisplaceMesh s) = fold (undisplace_node (ref_mesh s)) (nodes (mesh s)) (mesh s)"
    by (simp add: undisplaceMesh_def emit_def parallel_reduce_def Let_def)
  have frame: "mesh (undisplaceMesh s) = (mesh s)\<lparr>coords := coords (mesh (undisplaceMesh s))\<rparr>"
    by (subst (1 2) m) (rule fold_undisplace_frame)
  have "undisplaceMesh s =
          s\<lparr>mesh := mesh (undisplaceMesh s),
            trace := trace s @ [ParallelReduce ResetDisplacedMeshThread (nodes (mesh s))]\<rparr>"
    by (simp add: undisplaceMesh_def emit_def parallel_reduce_def Let_def)
  with frame have "undisplaceMesh s =
          s\<lparr>mesh := (mesh s)\<lparr>coords := coords (mesh (undisplaceMesh s))\<rparr>,
            trace := trace s @ [ParallelReduce ResetDisplacedMeshThread (nodes (mesh s))]\<rparr>"
    by simp
  moreover have "new_events s (undisplaceMesh s) =
      [ParallelReduce ResetDisplacedMeshThread (nodes (mesh s))]"
    by (simp add: new_events_def undisplaceMesh_def emit_def Let_def)
  ultimately show ?thesis by blast
qed

end
